theory Spec2Isabelle
  imports Main "HOL-Library.Sublist"
begin

section \<open>Go strings\<close>

text \<open>
  A Go \<open>string\<close> is a sequence of bytes; \<open>len\<close> counts bytes and \<open>==\<close> compares
  bytes. It is modelled as \<^typ>\<open>string\<close>, a list of 8-bit characters. Runes (Unicode code
  points) are natural numbers.
\<close>

abbreviation BS :: char where "BS \<equiv> CHR 0x5C"
abbreviation LF :: char where "LF \<equiv> CHR 0x0A"
abbreviation CR :: char where "CR \<equiv> CHR 0x0D"
abbreviation TAB :: char where "TAB \<equiv> CHR 0x09"

definition byte :: "char \<Rightarrow> nat" where
  "byte c = of_char c"

definition RuneError :: nat where
  "RuneError = 0xFFFD"

text \<open>
  \<open>utf8.DecodeRuneInString\<close>: the first rune of a string and its width in bytes. An
  invalid or truncated encoding yields \<open>(RuneError, 1)\<close>, the empty string
  \<open>(RuneError, 0)\<close>. The second byte's accepted range depends on the first byte
  (no overlong forms, no surrogates, nothing above U+10FFFF).
\<close>

definition cont :: "nat \<Rightarrow> bool" where
  "cont b = (0x80 \<le> b \<and> b \<le> 0xBF)"

text \<open>
  The table \<open>first\<close> of package \<open>utf8\<close> for a lead byte from \<open>0xC2\<close> to \<open>0xF4\<close>: the
  width of the encoding and the range accepted for the second byte.
\<close>

definition runeSize :: "nat \<Rightarrow> nat" where
  "runeSize s0 = (if s0 < 0xE0 then 2 else if s0 < 0xF0 then 3 else 4)"

definition acceptLo :: "nat \<Rightarrow> nat" where
  "acceptLo s0 = (if s0 = 0xE0 then 0xA0 else if s0 = 0xF0 then 0x90 else 0x80)"

definition acceptHi :: "nat \<Rightarrow> nat" where
  "acceptHi s0 = (if s0 = 0xED then 0x9F else if s0 = 0xF4 then 0x8F else 0xBF)"

text \<open>The code points of two-, three- and four-byte encodings.\<close>

definition rune2 :: "nat \<Rightarrow> nat \<Rightarrow> nat" where
  "rune2 s0 s1 = (s0 mod 0x20) * 0x40 + s1 mod 0x40"

definition rune3 :: "nat \<Rightarrow> nat \<Rightarrow> nat \<Rightarrow> nat" where
  "rune3 s0 s1 s2 = (s0 mod 0x10) * 0x1000 + (s1 mod 0x40) * 0x40 + s2 mod 0x40"

definition rune4 :: "nat \<Rightarrow> nat \<Rightarrow> nat \<Rightarrow> nat \<Rightarrow> nat" where
  "rune4 s0 s1 s2 s3 =
     (s0 mod 8) * 0x40000 + (s1 mod 0x40) * 0x1000 + (s2 mod 0x40) * 0x40 + s3 mod 0x40"

fun DecodeRuneInString :: "string \<Rightarrow> nat \<times> nat" where
  "DecodeRuneInString [] = (RuneError, 0)"
| "DecodeRuneInString (c0 # cs) =
     (let s0 = byte c0 in
      if s0 < 0x80 then (s0, 1)
      else if s0 < 0xC2 \<or> 0xF4 < s0 then (RuneError, 1)
      else if Suc (length cs) < runeSize s0 then (RuneError, 1)
      else
        let s1 = byte (cs ! 0) in
        if s1 < acceptLo s0 \<or> acceptHi s0 < s1 then (RuneError, 1)
        else if runeSize s0 \<le> 2 then (rune2 s0 s1, 2)
        else
          let s2 = byte (cs ! 1) in
          if \<not> cont s2 then (RuneError, 1)
          else if runeSize s0 \<le> 3 then (rune3 s0 s1 s2, 3)
          else
            let s3 = byte (cs ! 2) in
            if \<not> cont s3 then (RuneError, 1)
            else (rune4 s0 s1 s2 s3, 4))"

text \<open>
  \<open>utf8.AppendRune\<close>, which \<open>strings.Builder.WriteRune\<close> calls: a surrogate or a value
  above U+10FFFF is written as the encoding of \<open>RuneError\<close>.
\<close>

definition EncodeRune :: "nat \<Rightarrow> string" where
  "EncodeRune r =
     (if r < 0x80 then [char_of r]
      else if r < 0x800 then [char_of (0xC0 + r div 0x40), char_of (0x80 + r mod 0x40)]
      else if (0xD800 \<le> r \<and> r \<le> 0xDFFF) \<or> 0x10FFFF < r then [CHR 0xEF, CHR 0xBF, CHR 0xBD]
      else if r < 0x10000 then
        [char_of (0xE0 + r div 0x1000), char_of (0x80 + (r div 0x40) mod 0x40),
         char_of (0x80 + r mod 0x40)]
      else
        [char_of (0xF0 + r div 0x40000), char_of (0x80 + (r div 0x1000) mod 0x40),
         char_of (0x80 + (r div 0x40) mod 0x40), char_of (0x80 + r mod 0x40)])"

text \<open>
  \<open>for i, r := range s\<close>: Go visits the runes of \<open>s\<close> from left to right; \<open>i\<close> is the
  \<^emph>\<open>byte offset\<close> at which the rune starts. \<open>rangeString i s\<close> lists the pairs
  \<open>(i, r)\<close> for the string \<open>s\<close> that starts at offset \<open>i\<close>.
\<close>

lemma DecodeRuneInString_width: "s \<noteq> [] \<Longrightarrow> 1 \<le> snd (DecodeRuneInString s)"
  by (cases s) (simp_all add: Let_def)

function rangeString :: "nat \<Rightarrow> string \<Rightarrow> (nat \<times> nat) list" where
  "rangeString i [] = []"
| "rangeString i (c # cs) =
     (let (r, w) = DecodeRuneInString (c # cs) in (i, r) # rangeString (i + w) (drop w (c # cs)))"
  by pat_completeness auto
termination rangeString
proof (relation "measure (\<lambda>(i, s). length s)")
  show "wf (measure (\<lambda>(i, s). length s))" by simp
next
  fix i :: nat and c :: char and cs :: string and x :: "nat \<times> nat" and r w :: nat
  assume x: "x = DecodeRuneInString (c # cs)" and rw: "(r, w) = x"
  have "1 \<le> snd (DecodeRuneInString (c # cs))"
    by (rule DecodeRuneInString_width) simp
  with x rw have "1 \<le> w" by (metis snd_conv)
  then show "((i + w, drop w (c # cs)), (i, c # cs)) \<in> measure (\<lambda>(i, s). length s)"
    by simp
qed


text \<open>
  \<open>strings.ReplaceAll(s, old, new)\<close> for a non-empty \<open>old\<close>: the non-overlapping
  occurrences of \<open>old\<close> are replaced from left to right. With an empty \<open>old\<close>, Go
  inserts \<open>new\<close> at the start of the string and after every rune.
\<close>

fun replaceFrom :: "string \<Rightarrow> string \<Rightarrow> string \<Rightarrow> string" where
  "replaceFrom [] old new = []"
| "replaceFrom (c # cs) old new =
     (if old \<noteq> [] \<and> prefix old (c # cs)
      then new @ replaceFrom (drop (length old) (c # cs)) old new
      else c # replaceFrom cs old new)"

function insertAfterRunes :: "string \<Rightarrow> string \<Rightarrow> string" where
  "insertAfterRunes [] new = []"
| "insertAfterRunes (c # cs) new =
     (let w = snd (DecodeRuneInString (c # cs))
      in take w (c # cs) @ new @ insertAfterRunes (drop w (c # cs)) new)"
  by pat_completeness auto
termination insertAfterRunes
proof (relation "measure (\<lambda>(s, new). length s)")
  show "wf (measure (\<lambda>(s, new). length s))" by simp
next
  fix c :: char and cs new :: string and w :: nat
  assume w: "w = snd (DecodeRuneInString (c # cs))"
  have "1 \<le> snd (DecodeRuneInString (c # cs))"
    by (rule DecodeRuneInString_width) simp
  with w show "((drop w (c # cs), new), (c # cs, new)) \<in> measure (\<lambda>(s, new). length s)"
    by simp
qed

definition ReplaceAll :: "string \<Rightarrow> string \<Rightarrow> string \<Rightarrow> string" where
  "ReplaceAll s old new =
     (if old = [] then new @ insertAfterRunes s new else replaceFrom s old new)"

definition HasPrefix :: "string \<Rightarrow> string \<Rightarrow> bool" where
  "HasPrefix s p = (length p \<le> length s \<and> take (length p) s = p)"

text \<open>\<open>strings.Join(elems, sep)\<close>.\<close>

fun Join :: "string list \<Rightarrow> string \<Rightarrow> string" where
  "Join [] sep = []"
| "Join [x] sep = x"
| "Join (x # y # ys) sep = x @ sep @ Join (y # ys) sep"

section \<open>Escaping and folding (formatter)\<close>

definition escapeValue :: "string \<Rightarrow> string" where
  "escapeValue value0 =
     (let value1 = ReplaceAll value0 [BS] [BS, BS];
          value2 = ReplaceAll value1 '','' [BS, CHR '',''];
          value3 = ReplaceAll value2 '';'' [BS, CHR '';''];
          value4 = ReplaceAll value3 [LF] [BS, CHR ''n''];
          value5 = ReplaceAll value4 [CR] [BS, CHR ''r'']
      in value5)"

definition unescapeValue :: "string \<Rightarrow> string" where
  "unescapeValue value0 =
     (let value1 = ReplaceAll value0 [BS, BS] [BS];
          value2 = ReplaceAll value1 [BS, CHR '',''] '','';
          value3 = ReplaceAll value2 [BS, CHR '';''] '';'';
          value4 = ReplaceAll value3 [BS, CHR ''n''] [LF];
          value5 = ReplaceAll value4 [BS, CHR ''r''] [CR];
          value6 = ReplaceAll value5 [BS, CHR ''t''] [TAB]
      in value6)"

definition foldLine :: "string \<Rightarrow> string" where
  "foldLine line =
     (if length line \<le> 75 then line
      else concat (map (\<lambda>(i, r). (if i > 0 \<and> i mod 75 = 0 then [CR, LF, CHR '' ''] else [])
                                  @ EncodeRune r)
                       (rangeString 0 line)))"

text \<open>
  \<open>strings.ToUpper\<close>: a string of ASCII bytes only is mapped byte by byte; any other string
  goes through \<open>strings.Map(unicode.ToUpper, s)\<close>, which decodes the runes, maps each one and
  writes the results with \<open>WriteRune\<close>. The case table of package \<open>unicode\<close> for runes above
  U+007F is not part of this repository; it is the parameter \<open>U\<close>.
\<close>

definition asciiUpper :: "char \<Rightarrow> char" where
  "asciiUpper c = (if 0x61 \<le> byte c \<and> byte c \<le> 0x7A then char_of (byte c - 0x20) else c)"

definition unicodeToUpper :: "(nat \<Rightarrow> nat) \<Rightarrow> nat \<Rightarrow> nat" where
  "unicodeToUpper U r =
     (if r < 0x80 then (if 0x61 \<le> r \<and> r \<le> 0x7A then r - 0x20 else r) else U r)"

definition isASCII :: "string \<Rightarrow> bool" where
  "isASCII s = list_all (\<lambda>c. byte c < 0x80) s"

definition ToUpper :: "(nat \<Rightarrow> nat) \<Rightarrow> string \<Rightarrow> string" where
  "ToUpper U s =
     (if isASCII s then map asciiUpper s
      else concat (map (\<lambda>(i, r). EncodeRune (unicodeToUpper U r)) (rangeString 0 s)))"

section \<open>Data model (types)\<close>

type_synonym Version = string
type_synonym EmailType = string
type_synonym PhoneType = string
type_synonym AddressType = string
type_synonym URLType = string

definition Version30 :: Version where "Version30 = ''3.0''"
definition Version40 :: Version where "Version40 = ''4.0''"

record Name =
  Last :: string
  First :: string
  Middle :: string
  Prefix :: string
  Suffix :: string

record Email =
  Address :: string
  Type :: EmailType
  Preferred :: bool

record Phone =
  Number :: string
  Type :: PhoneType
  Preferred :: bool

record Address =
  Street :: string
  Extended :: string
  City :: string
  State :: string
  PostalCode :: string
  Country :: string
  Type :: AddressType
  Preferred :: bool

record Organization =
  Name :: string
  Department :: string
  Title :: string
  Role :: string

record URL =
  Address :: string
  Type :: URLType
  Preferred :: bool

text \<open>
  A \<open>time.Time\<close> enters the serializer only through \<open>Format("2006-01-02")\<close>, which prints
  the calendar date of the instant; the record keeps that date.
\<close>

record Time =
  Year :: int
  Month :: nat
  Day :: nat

text \<open>
  The fields of \<open>VCard\<close> as values. \<open>customProps\<close> lists the entries of the Go map in the
  order in which a \<open>range\<close> loop visits them (Go leaves that order unspecified); the
  field \<open>note\<close> is written \<open>note'\<close>.
\<close>

record VCard =
  version :: Version
  name :: Name
  emails :: "Email list"
  phones :: "Phone list"
  addresses :: "Address list"
  organization :: Organization
  urls :: "URL list"
  photo :: string
  note' :: string
  birthday :: "Time option"
  anniversary :: "Time option"
  customProps :: "(string \<times> string) list"

section \<open>Name and address formatting (types)\<close>

definition FormattedName :: "Name \<Rightarrow> string" where
  "FormattedName n =
     (let parts0 = [];
          parts1 = (if Prefix n \<noteq> [] then parts0 @ [Prefix n] else parts0);
          parts2 = (if First n \<noteq> [] then parts1 @ [First n] else parts1);
          parts3 = (if Middle n \<noteq> [] then parts2 @ [Middle n] else parts2);
          parts4 = (if Last n \<noteq> [] then parts3 @ [Last n] else parts3);
          parts5 = (if Suffix n \<noteq> [] then parts4 @ [Suffix n] else parts4)
      in Join parts5 '' '')"

definition StructuredName :: "Name \<Rightarrow> string" where
  "StructuredName n =
     Join [escapeValue (Last n), escapeValue (First n), escapeValue (Middle n),
           escapeValue (Prefix n), escapeValue (Suffix n)] '';''"

definition StructuredAddress :: "Address \<Rightarrow> string" where
  "StructuredAddress a =
     Join [[], escapeValue (Extended a), escapeValue (Street a), escapeValue (City a),
           escapeValue (State a), escapeValue (PostalCode a), escapeValue (Country a)] '';''"

definition FormattedAddress :: "Address \<Rightarrow> string" where
  "FormattedAddress a =
     (let parts0 = [];
          parts1 = (if Street a \<noteq> [] then parts0 @ [Street a] else parts0);
          parts2 = (if Extended a \<noteq> [] then parts1 @ [Extended a] else parts1);
          cityState0 = [];
          cityState1 = (if City a \<noteq> [] then cityState0 @ [City a] else cityState0);
          cityState2 = (if State a \<noteq> [] then cityState1 @ [State a] else cityState1);
          parts3 = (if length cityState2 > 0 then parts2 @ [Join cityState2 '', ''] else parts2);
          parts4 = (if PostalCode a \<noteq> [] then parts3 @ [PostalCode a] else parts3);
          parts5 = (if Country a \<noteq> [] then parts4 @ [Country a] else parts4)
      in Join parts5 [LF])"

section \<open>Dates\<close>

text \<open>
  \<open>t.Format("2006-01-02")\<close>: package \<open>time\<close> prints the year with \<open>appendInt(b, year, 4)\<close>
  and month and day with width 2. \<open>appendInt\<close> writes a minus sign for a negative number and
  pads the decimal digits with zeros up to the width.
\<close>

fun digits :: "nat \<Rightarrow> string" where
  "digits n = (if n < 10 then [char_of (0x30 + n)] else digits (n div 10) @ [char_of (0x30 + n mod 10)])"

definition appendInt :: "int \<Rightarrow> nat \<Rightarrow> string" where
  "appendInt x width =
     (let ds = digits (nat \<bar>x\<bar>)
      in (if x < 0 then ''-'' else []) @ replicate (width - length ds) (CHR ''0'') @ ds)"

definition FormatDate :: "Time \<Rightarrow> string" where
  "FormatDate t = appendInt (Year t) 4 @ ''-'' @ appendInt (int (Month t)) 2 @ ''-''
                    @ appendInt (int (Day t)) 2"

section \<open>Property writers (formatter)\<close>

text \<open>
  Every writer appends to the \<open>strings.Builder\<close> it is given and reads nothing back from it,
  so a writer is modelled by the text it appends; \<open>String\<close> concatenates the pieces in the
  order of the calls.
\<close>

definition formatTypeParameter :: "string list \<Rightarrow> string" where
  "formatTypeParameter types =
     (if length types = 0 then []
      else let validTypes = filter (\<lambda>t. t \<noteq> []) types
           in if length validTypes = 0 then [] else '';TYPE='' @ Join validTypes '','')"

definition writeNameProperties :: "VCard \<Rightarrow> string" where
  "writeNameProperties v =
     (let n = ''N:'' @ StructuredName (name v) @ [LF];
          formattedName0 = FormattedName (name v);
          formattedName =
            (if formattedName0 = [] then
               (if Last (name v) \<noteq> [] \<and> First (name v) \<noteq> []
                then Last (name v) @ '', '' @ First (name v)
                else if First (name v) \<noteq> [] then First (name v)
                else if Last (name v) \<noteq> [] then Last (name v)
                else formattedName0)
             else formattedName0)
      in n @ (if formattedName \<noteq> [] then ''FN:'' @ escapeValue formattedName @ [LF] else []))"

definition writeEmail :: "Email \<Rightarrow> string" where
  "writeEmail email =
     (let typeParam0 = (if Email.Type email \<noteq> [] then formatTypeParameter [Email.Type email]
                        else formatTypeParameter [''INTERNET'']);
          typeParam = (if Email.Preferred email then typeParam0 @ '';PREF=1'' else typeParam0);
          line = ''EMAIL'' @ typeParam @ '':'' @ escapeValue (Email.Address email)
      in foldLine line @ [LF])"

definition writeEmailProperties :: "VCard \<Rightarrow> string" where
  "writeEmailProperties v = concat (map writeEmail (emails v))"

definition writePhone :: "Phone \<Rightarrow> string" where
  "writePhone phone =
     (let typeParam0 = (if Phone.Type phone \<noteq> [] then formatTypeParameter [Phone.Type phone]
                        else formatTypeParameter [''VOICE'']);
          typeParam = (if Phone.Preferred phone then typeParam0 @ '';PREF=1'' else typeParam0);
          line = ''TEL'' @ typeParam @ '':'' @ escapeValue (Number phone)
      in foldLine line @ [LF])"

definition writePhoneProperties :: "VCard \<Rightarrow> string" where
  "writePhoneProperties v = concat (map writePhone (phones v))"

definition writeAddress :: "Address \<Rightarrow> string" where
  "writeAddress addr =
     (let typeParam0 = (if Address.Type addr \<noteq> [] then formatTypeParameter [Address.Type addr]
                        else []);
          typeParam = (if Address.Preferred addr then typeParam0 @ '';PREF=1'' else typeParam0);
          line = ''ADR'' @ typeParam @ '':'' @ StructuredAddress addr;
          labelLine = ''LABEL'' @ typeParam @ '':'' @ escapeValue (FormattedAddress addr)
      in foldLine line @ [LF]
         @ (if Street addr \<noteq> [] \<or> City addr \<noteq> [] \<or> State addr \<noteq> []
               \<or> PostalCode addr \<noteq> [] \<or> Country addr \<noteq> []
            then foldLine labelLine @ [LF] else []))"

definition writeAddressProperties :: "VCard \<Rightarrow> string" where
  "writeAddressProperties v = concat (map writeAddress (addresses v))"

definition writeOrganizationProperties :: "VCard \<Rightarrow> string" where
  "writeOrganizationProperties v =
     (let org = organization v in
      (if Name org \<noteq> [] then
         (let orgParts0 = [escapeValue (Name org)];
              orgParts = (if Department org \<noteq> [] then orgParts0 @ [escapeValue (Department org)]
                          else orgParts0)
          in foldLine (''ORG:'' @ Join orgParts '';'') @ [LF])
       else [])
      @ (if Title org \<noteq> [] then foldLine (''TITLE:'' @ escapeValue (Title org)) @ [LF] else [])
      @ (if Role org \<noteq> [] then foldLine (''ROLE:'' @ escapeValue (Role org)) @ [LF] else []))"

definition writeURL :: "URL \<Rightarrow> string" where
  "writeURL url =
     (let typeParam0 = (if URL.Type url \<noteq> [] then formatTypeParameter [URL.Type url] else []);
          typeParam = (if URL.Preferred url then typeParam0 @ '';PREF=1'' else typeParam0);
          line = ''URL'' @ typeParam @ '':'' @ escapeValue (URL.Address url)
      in foldLine line @ [LF])"

definition writeURLProperties :: "VCard \<Rightarrow> string" where
  "writeURLProperties v = concat (map writeURL (urls v))"

definition writePhotoProperty :: "VCard \<Rightarrow> string" where
  "writePhotoProperty v =
     (if photo v = [] then []
      else if HasPrefix (photo v) ''http://'' \<or> HasPrefix (photo v) ''https://''
      then foldLine (''PHOTO;VALUE=uri:'' @ photo v) @ [LF]
      else if HasPrefix (photo v) ''data:''
      then foldLine (''PHOTO;ENCODING=b:'' @ photo v) @ [LF]
      else foldLine (''PHOTO;ENCODING=b;TYPE=JPEG:'' @ photo v) @ [LF])"

definition writeBirthdayProperty :: "VCard \<Rightarrow> string" where
  "writeBirthdayProperty v =
     (case birthday v of None \<Rightarrow> []
      | Some t \<Rightarrow> ''BDAY:'' @ FormatDate t @ [LF])"

definition writeAnniversaryProperty :: "VCard \<Rightarrow> string" where
  "writeAnniversaryProperty v =
     (case anniversary v of None \<Rightarrow> []
      | Some t \<Rightarrow>
          if version v = Version40 then ''ANNIVERSARY:'' @ FormatDate t @ [LF] else [])"

definition writeCustomProperty :: "(nat \<Rightarrow> nat) \<Rightarrow> string \<times> string \<Rightarrow> string" where
  "writeCustomProperty U kv =
     (case kv of (key, value) \<Rightarrow>
        if HasPrefix (ToUpper U key) ''X-'' \<and> value \<noteq> []
        then foldLine (ToUpper U key @ '':'' @ escapeValue value) @ [LF]
        else [])"

definition writeCustomProperties :: "(nat \<Rightarrow> nat) \<Rightarrow> VCard \<Rightarrow> string" where
  "writeCustomProperties U v = concat (map (writeCustomProperty U) (customProps v))"

section \<open>Validation and serialization (vcard)\<close>

text \<open>
  A Go \<open>error\<close> made by \<open>fmt.Errorf\<close>: without the verb \<open>%w\<close> it carries its message only;
  with \<open>%w\<close> it carries the message and the wrapped error. \<open>None\<close> stands for \<open>nil\<close>.
\<close>

datatype error = errorString string | wrapError string error

fun Error :: "error \<Rightarrow> string" where
  "Error (errorString m) = m"
| "Error (wrapError m e) = m"

fun Unwrap :: "error \<Rightarrow> error option" where
  "Unwrap (errorString m) = None"
| "Unwrap (wrapError m e) = Some e"

fun validateEmails :: "Email list \<Rightarrow> error option" where
  "validateEmails [] = None"
| "validateEmails (email # rest) =
     (if Email.Address email = [] then Some (errorString ''email address cannot be empty'')
      else validateEmails rest)"

fun validatePhones :: "Phone list \<Rightarrow> error option" where
  "validatePhones [] = None"
| "validatePhones (phone # rest) =
     (if Number phone = [] then Some (errorString ''phone number cannot be empty'')
      else validatePhones rest)"

definition Validate :: "VCard \<Rightarrow> error option" where
  "Validate v =
     (if First (name v) = [] \<and> Last (name v) = []
      then Some (errorString ''vcard must have at least first name or last name'')
      else case validateEmails (emails v) of
             Some err \<Rightarrow> Some err
           | None \<Rightarrow> validatePhones (phones v))"

text \<open>
  \<open>String\<close> returns a pair \<open>(string, error)\<close>. \<open>writeNameProperties\<close> always returns a
  \<open>nil\<close> error, so its error branch in \<open>String\<close> is never taken.
\<close>

definition String :: "(nat \<Rightarrow> nat) \<Rightarrow> VCard \<Rightarrow> string \<times> error option" where
  "String U v =
     (case Validate v of
        Some err \<Rightarrow> ([], Some (wrapError (''vcard validation failed: '' @ Error err) err))
      | None \<Rightarrow>
          (''BEGIN:VCARD'' @ [LF]
           @ ''VERSION:'' @ version v @ [LF]
           @ writeNameProperties v
           @ writeEmailProperties v
           @ writePhoneProperties v
           @ writeAddressProperties v
           @ writeOrganizationProperties v
           @ writeURLProperties v
           @ (if photo v \<noteq> [] then writePhotoProperty v else [])
           @ (if note' v \<noteq> [] then ''NOTE:'' @ escapeValue (note' v) @ [LF] else [])
           @ (if birthday v \<noteq> None then writeBirthdayProperty v else [])
           @ (if anniversary v \<noteq> None then writeAnniversaryProperty v else [])
           @ writeCustomProperties U v
           @ ''END:VCARD'' @ [LF],
           None))"

definition New :: VCard where
  "New = \<lparr>version = Version30,
          name = \<lparr>Last = [], First = [], Middle = [], Prefix = [], Suffix = []\<rparr>,
          emails = [], phones = [], addresses = [],
          organization = \<lparr>Name = [], Department = [], Title = [], Role = []\<rparr>,
          urls = [], photo = [], note' = [], birthday = None, anniversary = None,
          customProps = []\<rparr>"

section \<open>Example contacts\<close>

text \<open>
  \<open>New().AddName("John", "Doe").AddEmail("john.doe@example.com").AddPhone("+1234567890")\<close>:
  \<open>AddEmail\<close> and \<open>AddPhone\<close> without a type argument store the default types.
\<close>

definition johnDoe :: VCard where
  "johnDoe = New\<lparr>name := \<lparr>Last = ''Doe'', First = ''John'', Middle = [], Prefix = [], Suffix = []\<rparr>,
      emails := [\<lparr>Email.Address = ''john.doe@example.com'', Email.Type = ''INTERNET'',
                  Email.Preferred = False\<rparr>],
      phones := [\<lparr>Number = ''+1234567890'', Phone.Type = ''VOICE'', Phone.Preferred = False\<rparr>]\<rparr>"

section \<open>The formatted name in the words of the specification\<close>

text \<open>
  The specification's description of the text of the \<open>FN\<close> line: the non-empty ones of
  prefix, first, middle, last and suffix joined by single spaces; if that is empty,
  \<open>Last, First\<close> when both are present, else whichever of first and last is present.
\<close>

definition formattedNameSpec :: "Name \<Rightarrow> string" where
  "formattedNameSpec n =
     (let joined = Join (filter (\<lambda>p. p \<noteq> []) [Prefix n, First n, Middle n, Last n, Suffix n]) '' ''
      in if joined \<noteq> [] then joined
         else if Last n \<noteq> [] \<and> First n \<noteq> [] then Last n @ '', '' @ First n
         else if First n \<noteq> [] then First n
         else Last n)"

section \<open>Helper notions for the statements\<close>



text \<open>A text that is empty or ends with a line feed: a sequence of complete lines.\<close>

definition lfTerminated :: "string \<Rightarrow> bool" where
  "lfTerminated s = (s = [] \<or> last s = LF)"


text \<open>What \<open>String\<close> writes before and after the photo.\<close>

definition beforePhoto :: "VCard \<Rightarrow> string" where
  "beforePhoto v =
     ''BEGIN:VCARD'' @ [LF] @ ''VERSION:'' @ version v @ [LF]
           @ writeNameProperties v
           @ writeEmailProperties v
           @ writePhoneProperties v
           @ writeAddressProperties v
           @ writeOrganizationProperties v
           @ writeURLProperties v"

definition afterPhoto :: "(nat \<Rightarrow> nat) \<Rightarrow> VCard \<Rightarrow> string" where
  "afterPhoto U v =
     (if note' v \<noteq> [] then ''NOTE:'' @ escapeValue (note' v) @ [LF] else [])
           @ (if birthday v \<noteq> None then writeBirthdayProperty v else [])
           @ (if anniversary v \<noteq> None then writeAnniversaryProperty v else [])
           @ writeCustomProperties U v
           @ ''END:VCARD'' @ [LF]"

text \<open>What \<open>String\<close> has written when it reaches the anniversary.\<close>

definition beforeAnniversary :: "VCard \<Rightarrow> string" where
  "beforeAnniversary v =
     ''BEGIN:VCARD'' @ [LF] @ ''VERSION:'' @ version v @ [LF]
           @ writeNameProperties v
           @ writeEmailProperties v
           @ writePhoneProperties v
           @ writeAddressProperties v
           @ writeOrganizationProperties v
           @ writeURLProperties v
           @ (if photo v \<noteq> [] then writePhotoProperty v else [])
           @ (if note' v \<noteq> [] then ''NOTE:'' @ escapeValue (note' v) @ [LF] else [])
           @ (if birthday v \<noteq> None then writeBirthdayProperty v else [])"








chapter \<open>Verified properties\<close>

section \<open>Escaping round trip\<close>

text \<open>
  Claim C1 says that \<open>unescapeValue (escapeValue s) = s\<close> for every string \<open>s\<close>. The code
  does not do that: \<open>unescapeValue\<close> runs its replacements one after the other over the
  whole string, so a backslash that the first pass has just restored is read again by the
  later passes. For the two-byte string backslash, \<open>n\<close> the escaped form is backslash,
  backslash, \<open>n\<close>; the first pass gives back backslash, \<open>n\<close>, and the fourth pass turns
  that into a line feed.
\<close>

theorem unescape_escape_backslash_n:
  "unescapeValue (escapeValue [BS, CHR ''n'']) = [LF] \<and>
   unescapeValue (escapeValue [BS, CHR ''n'']) \<noteq> [BS, CHR ''n'']"
  by (simp add: unescapeValue_def escapeValue_def ReplaceAll_def)

section \<open>Validation\<close>

lemma validateEmails_iff: "(validateEmails es \<noteq> None) = (\<exists>e\<in>set es. Email.Address e = [])"
  by (induction es) auto

lemma validatePhones_iff: "(validatePhones ps \<noteq> None) = (\<exists>p\<in>set ps. Number p = [])"
  by (induction ps) auto

text \<open>
  Claim C4: \<open>Validate\<close> returns an error exactly when first and last name are both empty,
  or some email has an empty address, or some phone has an empty number. In particular a
  contact with a first or a last name and no empty email address or phone number is valid.
\<close>

theorem Validate_fails_iff:
  "((Validate v \<noteq> None) =
      ((First (name v) = [] \<and> Last (name v) = [])
       \<or> (\<exists>e\<in>set (emails v). Email.Address e = [])
       \<or> (\<exists>p\<in>set (phones v). Number p = [])))
   \<and> ((First (name v) \<noteq> [] \<or> Last (name v) \<noteq> [])
        \<and> (\<forall>e\<in>set (emails v). Email.Address e \<noteq> [])
        \<and> (\<forall>p\<in>set (phones v). Number p \<noteq> [])
      \<longrightarrow> Validate v = None)"
proof -
  have "(Validate v \<noteq> None) =
     ((First (name v) = [] \<and> Last (name v) = []) \<or> validateEmails (emails v) \<noteq> None
        \<or> validatePhones (phones v) \<noteq> None)"
    by (auto simp: Validate_def split: option.splits)
  then have iff: "(Validate v \<noteq> None) =
      ((First (name v) = [] \<and> Last (name v) = [])
       \<or> (\<exists>e\<in>set (emails v). Email.Address e = [])
       \<or> (\<exists>p\<in>set (phones v). Number p = []))"
    by (simp only: validateEmails_iff validatePhones_iff)
  from iff show ?thesis by blast
qed

theorem Validate_fails_iff_witness:
  "Validate johnDoe = None \<and> Validate (johnDoe\<lparr>phones := [\<lparr>Number = [], Phone.Type = ''VOICE'',
      Phone.Preferred = False\<rparr>]\<rparr>) \<noteq> None"
  using Validate_fails_iff [of johnDoe]
    Validate_fails_iff [of "johnDoe\<lparr>phones := [\<lparr>Number = [], Phone.Type = ''VOICE'',
      Phone.Preferred = False\<rparr>]\<rparr>"]
  by (simp add: johnDoe_def New_def)

section \<open>Validation errors in \<open>String\<close>\<close>

text \<open>
  Claim C2 says that \<open>String\<close> hands back the error of \<open>Validate\<close> unchanged. It does return
  the empty text, but the error is a new one: \<open>fmt.Errorf("vcard validation failed: %w", err)\<close>.
  For the empty contact the two errors differ.
\<close>

theorem String_error_not_unchanged:
  "Validate New = Some (errorString ''vcard must have at least first name or last name'') \<and>
   String (\<lambda>r. r) New \<noteq> ([], Validate New)"
  by (simp add: String_def Validate_def New_def)

text \<open>
  Claim C2 as amended: when \<open>Validate\<close> returns the error \<open>err\<close>, \<open>String\<close> returns the
  empty text together with an error that wraps \<open>err\<close>: its message is \<open>err\<close>'s message
  after the prefix \<open>vcard validation failed: \<close>, and unwrapping it gives \<open>err\<close>.
\<close>

theorem String_wraps_validation_error:
  "Validate v = Some err \<Longrightarrow>
     String U v = ([], Some (wrapError (''vcard validation failed: '' @ Error err) err))
     \<and> (\<exists>e. snd (String U v) = Some e \<and> Unwrap e = Some err
              \<and> Error e = ''vcard validation failed: '' @ Error err)"
  by (simp add: String_def)

theorem String_wraps_validation_error_witness:
  "String (\<lambda>r. r) New =
     ([], Some (wrapError ''vcard validation failed: vcard must have at least first name or last name''
                  (errorString ''vcard must have at least first name or last name'')))"
  using String_wraps_validation_error
    [of New "errorString ''vcard must have at least first name or last name''" "\<lambda>r. r"]
  by (simp add: Validate_def New_def)

section \<open>The \<open>FN\<close> line\<close>

lemma snoc_if_filter: "(if p \<noteq> [] then xs @ [p] else xs) = xs @ filter (\<lambda>p. p \<noteq> []) [p]"
  by simp

lemma FormattedName_filter:
  "FormattedName n = Join (filter (\<lambda>p. p \<noteq> []) [Prefix n, First n, Middle n, Last n, Suffix n]) '' ''"
proof -
  have "filter (\<lambda>p. p \<noteq> []) [Prefix n, First n, Middle n, Last n, Suffix n]
        = ((((([] @ filter (\<lambda>p. p \<noteq> []) [Prefix n]) @ filter (\<lambda>p. p \<noteq> []) [First n])
            @ filter (\<lambda>p. p \<noteq> []) [Middle n]) @ filter (\<lambda>p. p \<noteq> []) [Last n])
            @ filter (\<lambda>p. p \<noteq> []) [Suffix n])"
    by (simp only: filter_append [symmetric] append.simps append_assoc)
  then show ?thesis
    unfolding FormattedName_def Let_def snoc_if_filter by simp
qed

lemma Join_Nil_iff: "sep \<noteq> [] \<Longrightarrow> (Join xs sep = []) = (xs = [] \<or> xs = [[]])"
  by (induction xs sep rule: Join.induct) auto

lemma filter_nonempty_Nil_iff:
  "(filter (\<lambda>p. p \<noteq> []) xs = [] \<or> filter (\<lambda>p. p \<noteq> []) xs = [[]]) = (\<forall>x\<in>set xs. x = [])"
proof -
  have "[] \<notin> set (filter (\<lambda>p. p \<noteq> ([]::'a list)) xs)" by simp
  then have "filter (\<lambda>p. p \<noteq> []) xs \<noteq> [[]]" by (metis list.set_intros(1))
  then show ?thesis by (simp add: filter_empty_conv)
qed

lemma FormattedName_Nil_iff:
  "(FormattedName n = []) =
     (Prefix n = [] \<and> First n = [] \<and> Middle n = [] \<and> Last n = [] \<and> Suffix n = [])"
proof -
  have "(FormattedName n = []) = (\<forall>x\<in>set [Prefix n, First n, Middle n, Last n, Suffix n]. x = [])"
    unfolding FormattedName_filter by (subst Join_Nil_iff) (simp_all only: filter_nonempty_Nil_iff, simp)
  then show ?thesis by simp
qed

text \<open>
  The fallback branch of \<open>writeNameProperties\<close> never contributes: when the formatted name
  is empty, first and last name are empty too.
\<close>

lemma formattedNameSpec_unfold:
  "formattedNameSpec n =
     (if FormattedName n \<noteq> [] then FormattedName n
      else if Last n \<noteq> [] \<and> First n \<noteq> [] then Last n @ '', '' @ First n
      else if First n \<noteq> [] then First n
      else Last n)"
  unfolding formattedNameSpec_def FormattedName_filter Let_def by (rule refl)

lemma formattedNameSpec_eq: "formattedNameSpec n = FormattedName n"
proof (cases "FormattedName n = []")
  case True
  then have "First n = []" "Last n = []"
    by (simp_all add: FormattedName_Nil_iff)
  with True show ?thesis
    by (simp add: formattedNameSpec_unfold)
next
  case False
  then show ?thesis
    by (simp add: formattedNameSpec_unfold)
qed

text \<open>
  Claim C8: \<open>writeNameProperties\<close> writes the \<open>N\<close> line and then the \<open>FN\<close> line exactly when
  the formatted name, computed as the specification describes it, is not empty; the line
  carries that name, escaped.
\<close>

theorem FN_line_iff_formatted_name:
  "writeNameProperties v =
     ''N:'' @ StructuredName (name v) @ [LF]
     @ (if formattedNameSpec (name v) \<noteq> []
        then ''FN:'' @ escapeValue (formattedNameSpec (name v)) @ [LF] else [])"
proof -
  have "writeNameProperties v =
     ''N:'' @ StructuredName (name v) @ [LF]
     @ (if FormattedName (name v) \<noteq> []
        then ''FN:'' @ escapeValue (FormattedName (name v)) @ [LF] else [])"
  proof (cases "FormattedName (name v) = []")
    case True
    then have "First (name v) = []" "Last (name v) = []" by (simp_all add: FormattedName_Nil_iff)
    with True show ?thesis by (simp add: writeNameProperties_def)
  next
    case False
    then show ?thesis by (simp add: writeNameProperties_def)
  qed
  then show ?thesis by (simp only: formattedNameSpec_eq)
qed

theorem FN_line_iff_formatted_name_witness:
  "writeNameProperties johnDoe = ''N:Doe;John;;;'' @ [LF] @ ''FN:John Doe'' @ [LF]"
proof -
  have n: "name johnDoe = \<lparr>Last = ''Doe'', First = ''John'', Middle = [], Prefix = [], Suffix = []\<rparr>"
    by (simp add: johnDoe_def New_def)
  have f: "formattedNameSpec (name johnDoe) = ''John Doe''"
    by (simp add: n formattedNameSpec_def)
  have e: "escapeValue ''John Doe'' = ''John Doe''"
    by (simp add: escapeValue_def ReplaceAll_def)
  have s: "StructuredName (name johnDoe) = ''Doe;John;;;''"
    by (simp add: n StructuredName_def escapeValue_def ReplaceAll_def)
  show ?thesis
    using FN_line_iff_formatted_name [of johnDoe] by (simp add: f e s)
qed

section \<open>The text that \<open>String\<close> returns for a valid contact\<close>


lemma writers_anniversary_update [simp]:
  "writeNameProperties (v\<lparr>anniversary := a\<rparr>) = writeNameProperties v"
  "writeEmailProperties (v\<lparr>anniversary := a\<rparr>) = writeEmailProperties v"
  "writePhoneProperties (v\<lparr>anniversary := a\<rparr>) = writePhoneProperties v"
  "writeAddressProperties (v\<lparr>anniversary := a\<rparr>) = writeAddressProperties v"
  "writeOrganizationProperties (v\<lparr>anniversary := a\<rparr>) = writeOrganizationProperties v"
  "writeURLProperties (v\<lparr>anniversary := a\<rparr>) = writeURLProperties v"
  "writePhotoProperty (v\<lparr>anniversary := a\<rparr>) = writePhotoProperty v"
  "writeBirthdayProperty (v\<lparr>anniversary := a\<rparr>) = writeBirthdayProperty v"
  "writeCustomProperties U (v\<lparr>anniversary := a\<rparr>) = writeCustomProperties U v"
  "Validate (v\<lparr>anniversary := a\<rparr>) = Validate v"
  by (simp_all add: writeNameProperties_def writeEmailProperties_def writePhoneProperties_def
      writeAddressProperties_def writeOrganizationProperties_def writeURLProperties_def
      writePhotoProperty_def writeBirthdayProperty_def writeCustomProperties_def Validate_def
      Let_def split: option.split)

lemma Validate_version_update [simp]: "Validate (v\<lparr>version := x\<rparr>) = Validate v"
  by (simp add: Validate_def split: option.split)


lemma beforeAnniversary_update [simp]:
  "beforeAnniversary (v\<lparr>anniversary := a\<rparr>) = beforeAnniversary v"
  by (simp add: beforeAnniversary_def)

section \<open>Complete lines\<close>

lemma lfTerminated_Nil [simp]: "lfTerminated []"
  by (simp add: lfTerminated_def)

lemma lfTerminated_Cons [simp]:
  "lfTerminated (c # s) = (if s = [] then c = LF else lfTerminated s)"
  by (simp add: lfTerminated_def)

lemma lfTerminated_append [simp]:
  "lfTerminated (a @ b) = (if b = [] then lfTerminated a else lfTerminated b)"
  by (simp add: lfTerminated_def)

lemma lfTerminated_concat: "(\<And>x. x \<in> set xs \<Longrightarrow> lfTerminated (f x)) \<Longrightarrow> lfTerminated (concat (map f xs))"
  by (induction xs) simp_all

lemma lfTerminated_writers [simp]:
  "lfTerminated (writeNameProperties v)"
  "lfTerminated (writeEmailProperties v)"
  "lfTerminated (writePhoneProperties v)"
  "lfTerminated (writeAddressProperties v)"
  "lfTerminated (writeOrganizationProperties v)"
  "lfTerminated (writeURLProperties v)"
  "lfTerminated (writePhotoProperty v)"
  "lfTerminated (writeBirthdayProperty v)"
  "lfTerminated (writeAnniversaryProperty v)"
  "lfTerminated (writeCustomProperties U v)"
  by (simp_all add: writeNameProperties_def writeEmailProperties_def writePhoneProperties_def
      writeAddressProperties_def writeOrganizationProperties_def writeURLProperties_def
      writePhotoProperty_def writeBirthdayProperty_def writeAnniversaryProperty_def
      writeCustomProperties_def writeEmail_def writePhone_def writeAddress_def writeURL_def
      writeCustomProperty_def lfTerminated_concat Let_def split: option.split prod.split)


section \<open>The layout of dates\<close>

declare digits.simps [simp del]









section \<open>The anniversary\<close>



section \<open>The photo\<close>



lemma photo_update [simp]:
  "beforePhoto (v\<lparr>photo := p\<rparr>) = beforePhoto v"
  "afterPhoto U (v\<lparr>photo := p\<rparr>) = afterPhoto U v"
  "Validate (v\<lparr>photo := p\<rparr>) = Validate v"
  by (simp_all add: beforePhoto_def afterPhoto_def writeNameProperties_def writeEmailProperties_def
      writePhoneProperties_def writeAddressProperties_def writeOrganizationProperties_def
      writeURLProperties_def writeBirthdayProperty_def writeAnniversaryProperty_def
      writeCustomProperties_def Validate_def Let_def split: option.split)





section \<open>Line folding\<close>
























section \<open>Custom properties\<close>

lemma byte_lt_256: "byte c < 256"
  by (simp add: byte_def)






























end
